theory Spec2Isabelle
  imports Main
begin

section \<open>The forecast fetcher of python-ftp.py\<close>

text \<open>
  The program is one sequential FTP session: connect, log in anonymously, change
  directory, stream the lines of one file through a callback that keeps at most 100 of
  them, quit, print, return. Everything the program does beyond computing a value is
  made explicit here: the calls it makes to the FTP client library and to \<open>print\<close> are
  recorded, in order, in a list of events, and the two ways the function can end
  (\<open>return\<close> and \<open>sys.exit\<close>) are the two constructors of its result.
  Strings are sequences of 8-bit characters; the encoding of text is not modelled.
\<close>

subsection \<open>Exceptions, events and results\<close>

text \<open>
  The exceptions a run can meet, all of them subclasses of \<open>Exception\<close> and so caught
  by \<open>except Exception as e\<close>: \<open>OSError\<close> (refused or lost connections, time-outs),
  \<open>EOFError\<close>, the four reply errors of \<open>ftplib\<close>, \<open>ValueError\<close> and
  \<open>UnicodeEncodeError\<close>. The program uses only the text that \<open>str(e)\<close> gives, inside the
  f-string of the failure message; the library looks at the class when it leaves the
  \<open>with\<close> block.
\<close>

datatype exc_class =
    OSError
  | EOFError
  | Error_reply
  | Error_temp
  | Error_perm
  | Error_proto
  | ValueError
  | UnicodeEncodeError

datatype py_exception = Exception (cls: exc_class) (str: string)

text \<open>
  The calls the source makes, in the order it makes them: \<open>FTP(host, timeout=t)\<close>,
  \<open>ftp.login()\<close>, \<open>ftp.cwd(dir)\<close>, \<open>ftp.retrlines(cmd, callback=handle_line)\<close>,
  \<open>ftp.quit()\<close>, \<open>print(s)\<close> and \<open>print(s, file=sys.stderr)\<close>. Three more events are
  not calls of the source's own text: the \<open>QUIT\<close> that leaving the \<open>with\<close> block sends
  while the connection is still open, a \<open>print(s)\<close> that raises instead of writing, and
  the traceback the interpreter writes for an exception nobody catches.
\<close>

datatype event =
    Ev_connect string nat
  | Ev_login
  | Ev_cwd string
  | Ev_retrlines string
  | Ev_quit
  | Ev_exit_quit
  | Ev_stdout string
  | Ev_stdout_failed string
  | Ev_stderr string
  | Ev_traceback py_exception

text \<open>A call either returns its value or ends the process through \<open>sys.exit(n)\<close>.\<close>

datatype 'a result = Returned 'a | Exited nat

subsection \<open>The surroundings of a run\<close>

text \<open>
  The remote server, the network and the standard output stream are a parameter of the
  model. Each field says how the corresponding step ends when the run has come that
  far: \<open>None\<close> when it ends normally, \<open>Some e\<close> when it raises \<open>e\<close>.
  \<^item> \<open>srv_connect\<close>, \<open>srv_login\<close>, \<open>srv_cwd\<close>, \<open>srv_quit\<close>: the calls of these names.
  \<^item> \<open>srv_prepare\<close>: what \<open>retrlines\<close> does before it sends the retrieval request
    (\<open>TYPE A\<close>, \<open>PASV\<close>, opening the data connection).
  \<^item> \<open>srv_retrlines request\<close>: what follows once the bytes \<open>request\<close> have been sent: the
    lines handed to the callback, one call per line and in this order, and then how the
    call ends; a transfer that breaks off in the middle has delivered some lines and
    ends with \<open>Some e\<close>.
  \<^item> \<open>srv_exit_quit\<close>: the \<open>QUIT\<close> sent on leaving the \<open>with\<close> block after a failure.
  \<^item> \<open>stdout_print t\<close>: \<open>print(t)\<close> on standard output; a text the stream cannot encode
    raises. The outcome depends on the text only.
  Writing to standard error is taken to succeed: that stream replaces what it cannot
  encode.
\<close>

record environment =
  srv_connect :: "string \<Rightarrow> nat \<Rightarrow> py_exception option"
  srv_login :: "py_exception option"
  srv_cwd :: "string \<Rightarrow> py_exception option"
  srv_prepare :: "py_exception option"
  srv_retrlines :: "string \<Rightarrow> string list \<times> py_exception option"
  srv_quit :: "py_exception option"
  srv_exit_quit :: "py_exception option"
  stdout_print :: "string \<Rightarrow> py_exception option"

subsection \<open>Strings\<close>

definition newline :: string where
  "newline = [CHR 0x0A]"

definition CRLF :: string where
  "CRLF = [CHR 0x0D, CHR 0x0A]"

text \<open>\<open>sep.join(xs)\<close> of Python.\<close>

fun join :: "string \<Rightarrow> string list \<Rightarrow> string" where
  "join sep [] = []"
| "join sep [x] = x"
| "join sep (x # y # ys) = x @ sep @ join sep (y # ys)"

subsection \<open>The parts of ftplib the program runs through\<close>

text \<open>
  Every command goes to the server through \<open>putline\<close>, which refuses a line that holds
  a carriage return or a line feed and otherwise sends the line followed by CRLF:
  \<^verbatim>\<open>
  def putline(self, line):
      if '\r' in line or '\n' in line:
          raise ValueError('an illegal newline character should not be contained')
      line = line + CRLF
      self.sock.sendall(line.encode(self.encoding))
  \<close>
  The result is the exception raised, or the bytes sent.
\<close>

definition putline :: "string \<Rightarrow> py_exception + string" where
  "putline line =
     (if CHR 0x0D \<in> set line \<or> CHR 0x0A \<in> set line
      then Inl (Exception ValueError ''an illegal newline character should not be contained'')
      else Inr (line @ CRLF))"

text \<open>
  \<open>ftp.retrlines(cmd, callback)\<close>: the preparation, then the command through \<open>putline\<close>,
  then the transfer. The result is the retrieval request that went to the server, if
  one did, the lines handed to the callback, and how the call ends.
\<close>

definition retrlines :: "environment \<Rightarrow> string \<Rightarrow> string option \<times> string list \<times> py_exception option"
  where
  "retrlines s cmd =
     (case srv_prepare s of
        Some e \<Rightarrow> (None, [], Some e)
      | None \<Rightarrow>
         (case putline cmd of
            Inl e \<Rightarrow> (None, [], Some e)
          | Inr request \<Rightarrow> (Some request, srv_retrlines s request)))"

text \<open>
  Leaving \<open>with FTP(...) as ftp\<close> with the exception \<open>e\<close> while the connection is open:
  \<^verbatim>\<open>
  def __exit__(self, *args):
      if self.sock is not None:
          try:
              self.quit()
          except (OSError, EOFError):
              pass
          finally:
              if self.sock is not None:
                  self.close()
  \<close>
  The library sends \<open>QUIT\<close>. An \<open>OSError\<close> or \<open>EOFError\<close> of that \<open>QUIT\<close> is dropped and
  \<open>e\<close> goes on; any other exception of it, an error reply of the server for instance,
  goes on in the place of \<open>e\<close>. The connection is open from the moment the constructor
  has returned until \<open>ftp.quit()\<close> has returned.
\<close>

definition with_exit :: "environment \<Rightarrow> py_exception \<Rightarrow> py_exception" where
  "with_exit s e =
     (case srv_exit_quit s of
        None \<Rightarrow> e
      | Some q \<Rightarrow> if cls q = OSError \<or> cls q = EOFError then e else q)"

text \<open>\<open>print(t)\<close> on standard output: the event, and the exception if it raises.\<close>

definition print_out :: "environment \<Rightarrow> event list \<Rightarrow> string \<Rightarrow> event list \<times> py_exception option"
  where
  "print_out s tr t =
     (case stdout_print s t of
        None \<Rightarrow> (tr @ [Ev_stdout t], None)
      | Some e \<Rightarrow> (tr @ [Ev_stdout_failed t], Some e))"

subsection \<open>The line callback\<close>

text \<open>
  \<^verbatim>\<open>
  def handle_line(line):
      if len(lines) < 100:
          lines.append(line)
  \<close>
  The closure mutates the list \<open>lines\<close> of the enclosing call; the model takes the list
  and returns the new one.
\<close>

definition handle_line :: "string list \<Rightarrow> string \<Rightarrow> string list" where
  "handle_line lines line = (if length lines < 100 then lines @ [line] else lines)"

text \<open>\<open>retrlines\<close> calls the callback once for each line received, in order.\<close>

definition run_callback :: "string list \<Rightarrow> string list \<Rightarrow> string list" where
  "run_callback lines received = foldl handle_line lines received"

subsection \<open>fetch_bom_forecast\<close>

text \<open>
  The \<open>except Exception as e\<close> block: one \<open>print\<close> on standard error, then \<open>sys.exit(1)\<close>.
\<close>

definition except :: "event list \<Rightarrow> py_exception \<Rightarrow> event list \<times> string result" where
  "except tr e =
     (tr @ [Ev_stderr (''FTP connection or operation failed: '' @ str e)], Exited 1)"

text \<open>
  An exception raised inside the \<open>with\<close> block while the connection is open: the block
  is left through \<open>__exit__\<close>, and what comes out of it reaches the handler.
\<close>

definition raise_in_with :: "environment \<Rightarrow> event list \<Rightarrow> py_exception \<Rightarrow> event list \<times> string result"
  where
  "raise_in_with s tr e = except (tr @ [Ev_exit_quit]) (with_exit s e)"

text \<open>
  \<^verbatim>\<open>
  try:
      with FTP(ftp_host, timeout=ftp_timeout) as ftp:
          ftp.login()
          ftp.cwd(ftp_dir)
          def handle_line(line): ...
          ftp.retrlines(f"RETR {ftp_file}", callback=handle_line)
          ftp.quit()
          print("FTP connection closed.")
          print("Fetched forecast data:")
          print("\n".join(lines))
      return "\n".join(lines)
  except Exception as e:
      print(f"FTP connection or operation failed: {e}", file=sys.stderr)
      sys.exit(1)
  \<close>
  When the constructor raises, the \<open>with\<close> block is not entered. The three prints are
  inside the \<open>try\<close>: one that raises is caught like any other failure, and by then
  \<open>ftp.quit()\<close> has closed the connection, so that leaving the block sends nothing.
\<close>

definition fetch_bom_forecast :: "environment \<Rightarrow> string \<Rightarrow> event list \<times> string result" where
  "fetch_bom_forecast s ftp_file =
     (let ftp_host = ''ftp.bom.gov.au'';
          ftp_dir = ''/anon/gen/fwo/'';
          lines = [];
          ftp_timeout = 30;
          tr = [Ev_connect ftp_host ftp_timeout]
      in case srv_connect s ftp_host ftp_timeout of
           Some e \<Rightarrow> except tr e
         | None \<Rightarrow>
      let tr = tr @ [Ev_login]
      in case srv_login s of
           Some e \<Rightarrow> raise_in_with s tr e
         | None \<Rightarrow>
      let tr = tr @ [Ev_cwd ftp_dir]
      in case srv_cwd s ftp_dir of
           Some e \<Rightarrow> raise_in_with s tr e
         | None \<Rightarrow>
      let cmd = ''RETR '' @ ftp_file;
          tr = tr @ [Ev_retrlines cmd];
          (request, received, ended) = retrlines s cmd;
          lines = run_callback lines received
      in case ended of
           Some e \<Rightarrow> raise_in_with s tr e
         | None \<Rightarrow>
      let tr = tr @ [Ev_quit]
      in case srv_quit s of
           Some e \<Rightarrow> raise_in_with s tr e
         | None \<Rightarrow>
      let (tr, raised) = print_out s tr ''FTP connection closed.''
      in case raised of
           Some e \<Rightarrow> except tr e
         | None \<Rightarrow>
      let (tr, raised) = print_out s tr ''Fetched forecast data:''
      in case raised of
           Some e \<Rightarrow> except tr e
         | None \<Rightarrow>
      let (tr, raised) = print_out s tr (join newline lines)
      in case raised of
           Some e \<Rightarrow> except tr e
         | None \<Rightarrow> (tr, Returned (join newline lines)))"

subsection \<open>The top-level driver\<close>

text \<open>
  \<^verbatim>\<open>
  if len(sys.argv) < 2:
      print("Usage: python python-ftp.py <ftp_file>", file=sys.stderr)
      sys.exit(1)
  forecast_file = sys.argv[1]
  forecast = fetch_bom_forecast(forecast_file)
  print(forecast)
  \<close>
  \<open>argv\<close> is \<open>sys.argv\<close>, the script name first. The result is the events of the whole
  run and the exit status of the process, 0 when the script runs to its end. The last
  \<open>print\<close> is outside every \<open>try\<close>: were it to raise, the interpreter would write a
  traceback and end with status 1.
\<close>

definition main :: "environment \<Rightarrow> string list \<Rightarrow> event list \<times> nat" where
  "main s argv =
     (if length argv < 2
      then ([Ev_stderr ''Usage: python python-ftp.py <ftp_file>''], 1)
      else
        let forecast_file = argv ! 1
        in case fetch_bom_forecast s forecast_file of
             (tr, Exited n) \<Rightarrow> (tr, n)
           | (tr, Returned forecast) \<Rightarrow>
               (case print_out s tr forecast of
                  (tr, None) \<Rightarrow> (tr, 0)
                | (tr, Some e) \<Rightarrow> (tr @ [Ev_traceback e], 1)))"

subsection \<open>What a run writes and which library calls it makes\<close>

text \<open>
  \<open>print(s)\<close> writes \<open>s\<close> and a newline to its stream; a \<open>print\<close> that raises has
  written nothing. The text of a traceback is not modelled.
\<close>

fun stdout_of :: "event list \<Rightarrow> string" where
  "stdout_of [] = []"
| "stdout_of (Ev_stdout t # es) = t @ newline @ stdout_of es"
| "stdout_of (e # es) = stdout_of es"

fun stderr_of :: "event list \<Rightarrow> string" where
  "stderr_of [] = []"
| "stderr_of (Ev_stderr t # es) = t @ newline @ stderr_of es"
| "stderr_of (e # es) = stderr_of es"

fun is_network :: "event \<Rightarrow> bool" where
  "is_network (Ev_stdout t) = False"
| "is_network (Ev_stdout_failed t) = False"
| "is_network (Ev_stderr t) = False"
| "is_network (Ev_traceback e) = False"
| "is_network e = True"

text \<open>The number of lines of a text written to a stream: its line feeds.\<close>

definition count_lines :: "string \<Rightarrow> nat" where
  "count_lines t = length (filter (\<lambda>c. c = CHR 0x0A) t)"

subsection \<open>The remote side, as the session sees it\<close>

text \<open>
  The lines of the remote file \<open>ftp_file\<close>: what the transfer hands to the callback when
  the file is asked for.
\<close>

definition remote_lines :: "environment \<Rightarrow> string \<Rightarrow> string list" where
  "remote_lines s ftp_file = fst (srv_retrlines s (''RETR '' @ ftp_file @ CRLF))"

text \<open>
  The exception of the first call of the session that raises, in the order in which
  the function makes its calls: connection, authentication, directory change,
  transfer, session end. \<open>None\<close> when every call of the session returns normally.
\<close>

definition first_failure :: "environment \<Rightarrow> string \<Rightarrow> py_exception option" where
  "first_failure s ftp_file =
     (case srv_connect s ''ftp.bom.gov.au'' 30 of
        Some e \<Rightarrow> Some e
      | None \<Rightarrow>
         (case srv_login s of
            Some e \<Rightarrow> Some e
          | None \<Rightarrow>
             (case srv_cwd s ''/anon/gen/fwo/'' of
                Some e \<Rightarrow> Some e
              | None \<Rightarrow>
                 (case snd (snd (retrlines s (''RETR '' @ ftp_file))) of
                    Some e \<Rightarrow> Some e
                  | None \<Rightarrow> srv_quit s))))"

text \<open>
  The exception that reaches the handler when \<open>e\<close> is the first failure: \<open>e\<close> itself
  when the constructor raised it, and what leaving the \<open>with\<close> block makes of it
  otherwise.
\<close>

definition handled :: "environment \<Rightarrow> py_exception \<Rightarrow> py_exception" where
  "handled s e =
     (if srv_connect s ''ftp.bom.gov.au'' 30 = None then with_exit s e else e)"

text \<open>
  The exception of the first of the three prints that raises, when the session itself
  has gone through.
\<close>

definition print_failure :: "environment \<Rightarrow> string \<Rightarrow> py_exception option" where
  "print_failure s ftp_file =
     (case stdout_print s ''FTP connection closed.'' of
        Some e \<Rightarrow> Some e
      | None \<Rightarrow>
         (case stdout_print s ''Fetched forecast data:'' of
            Some e \<Rightarrow> Some e
          | None \<Rightarrow>
              stdout_print s
                (join newline (run_callback [] (fst (snd (retrlines s (''RETR '' @ ftp_file))))))))"

subsection \<open>Concrete surroundings\<close>

text \<open>
  A server that holds one file, \<open>name\<close> with the lines \<open>content\<close>, and answers every
  other retrieval with a permanent error; the standard output takes every text.
\<close>

definition bom_server :: "string \<Rightarrow> string list \<Rightarrow> environment" where
  "bom_server name content =
     \<lparr>srv_connect = (\<lambda>host timeout. None),
      srv_login = None,
      srv_cwd = (\<lambda>dir. None),
      srv_prepare = None,
      srv_retrlines = (\<lambda>request. if request = ''RETR '' @ name @ CRLF then (content, None)
                              else ([], Some (Exception Error_perm ''550 Failed to open file.''))),
      srv_quit = None,
      srv_exit_quit = None,
      stdout_print = (\<lambda>t. None)\<rparr>"



text \<open>
  A server that has no file at all and answers the \<open>QUIT\<close> sent on leaving the block
  with an error reply.
\<close>

definition closing_server :: environment where
  "closing_server =
     \<lparr>srv_connect = (\<lambda>host timeout. None),
      srv_login = None,
      srv_cwd = (\<lambda>dir. None),
      srv_prepare = None,
      srv_retrlines =
        (\<lambda>request. ([], Some (Exception Error_perm ''550 Failed to open file.''))),
      srv_quit = None,
      srv_exit_quit = Some (Exception Error_temp ''421 Service not available.''),
      stdout_print = (\<lambda>t. None)\<rparr>"

text \<open>A server that refuses the directory with a reply of two lines.\<close>

definition verbose_server :: environment where
  "verbose_server =
     \<lparr>srv_connect = (\<lambda>host timeout. None),
      srv_login = None,
      srv_cwd = (\<lambda>dir. Some (Exception Error_perm
                  (''550-No such directory.'' @ [CHR 0x0A] @ ''550 Ask the operator.''))),
      srv_prepare = None,
      srv_retrlines = (\<lambda>request. ([], None)),
      srv_quit = None,
      srv_exit_quit = None,
      stdout_print = (\<lambda>t. None)\<rparr>"

text \<open>A server that delivers the same lines whatever the request.\<close>

definition uniform_server :: "string list \<Rightarrow> environment" where
  "uniform_server content =
     \<lparr>srv_connect = (\<lambda>host timeout. None),
      srv_login = None,
      srv_cwd = (\<lambda>dir. None),
      srv_prepare = None,
      srv_retrlines = (\<lambda>request. (content, None)),
      srv_quit = None,
      srv_exit_quit = None,
      stdout_print = (\<lambda>t. None)\<rparr>"

text \<open>
  The same, with a standard output that cannot encode the degree sign of the
  forecasts (the byte \<open>0xB0\<close>).
\<close>

definition ascii_terminal :: "string list \<Rightarrow> environment" where
  "ascii_terminal content =
     (uniform_server content)\<lparr>stdout_print :=
        (\<lambda>t. if CHR 0xB0 \<in> set t
              then Some (Exception UnicodeEncodeError ''ascii codec cannot encode character'')
              else None)\<rparr>"

section \<open>Properties\<close>

subsection \<open>The callback loop and the joining\<close>

lemma run_callback_take:
  "length lines \<le> 100 \<Longrightarrow>
     run_callback lines received = lines @ take (100 - length lines) received"
  unfolding run_callback_def
proof (induction received arbitrary: lines)
  case Nil
  then show ?case by simp
next
  case (Cons l ls)
  show ?case
  proof (cases "length lines < 100")
    case True
    then have "100 - length lines = Suc (100 - length (lines @ [l]))" by simp
    with True Cons.IH [of "lines @ [l]"] show ?thesis
      by (simp add: handle_line_def)
  next
    case False
    with Cons show ?thesis by (simp add: handle_line_def)
  qed
qed

lemma run_callback_full: "100 \<le> length lines \<Longrightarrow> run_callback lines received = lines"
  unfolding run_callback_def
  by (induction received) (simp_all add: handle_line_def)

lemma run_callback_empty: "run_callback [] received = take 100 received"
  by (simp add: run_callback_take)

lemma join_concat:
  "xs \<noteq> [] \<Longrightarrow> join sep xs = concat (map (\<lambda>l. l @ sep) (butlast xs)) @ last xs"
  by (induction sep xs rule: join.induct) simp_all

lemma count_lines_append: "count_lines (a @ b) = count_lines a + count_lines b"
  by (simp add: count_lines_def)

lemma count_lines_free: "CHR 0x0A \<notin> set t \<Longrightarrow> count_lines t = 0"
  by (induction t) (auto simp add: count_lines_def)

lemma count_lines_join:
  "xs \<noteq> [] \<Longrightarrow> \<forall>l\<in>set xs. CHR 0x0A \<notin> set l \<Longrightarrow>
     Suc (count_lines (join newline xs)) = length xs"
proof (induction newline xs rule: join.induct)
  case 1
  then show ?case by simp
next
  case (2 x)
  then show ?case by (simp add: count_lines_free)
next
  case (3 x y ys)
  have "count_lines newline = 1" by (simp add: newline_def count_lines_def)
  with 3 show ?case by (simp add: count_lines_append count_lines_free)
qed

subsection \<open>The library\<close>

lemma putline_clean:
  "CHR 0x0D \<notin> set line \<Longrightarrow> CHR 0x0A \<notin> set line \<Longrightarrow> putline line = Inr (line @ CRLF)"
  by (simp add: putline_def)

lemma putline_refused:
  "CHR 0x0D \<in> set line \<or> CHR 0x0A \<in> set line \<Longrightarrow>
     putline line = Inl (Exception ValueError ''an illegal newline character should not be contained'')"
  by (simp add: putline_def)

lemma retrlines_ended_ok:
  assumes "snd (snd (retrlines s cmd)) = None"
  shows "retrlines s cmd = (Some (cmd @ CRLF), srv_retrlines s (cmd @ CRLF))"
    and "CHR 0x0D \<notin> set cmd" and "CHR 0x0A \<notin> set cmd" and "srv_prepare s = None"
  using assms
  by (auto simp add: retrlines_def putline_def split: option.splits if_splits)

lemma retrlines_received:
  "snd (snd (retrlines s (''RETR '' @ f))) = None \<Longrightarrow>
     fst (snd (retrlines s (''RETR '' @ f))) = remote_lines s f"
  using retrlines_ended_ok(1) [of s "''RETR '' @ f"] by (simp add: remote_lines_def)


lemma handled_unchanged:
  "srv_connect s ''ftp.bom.gov.au'' 30 \<noteq> None \<or> srv_exit_quit s = None \<or>
   (\<exists>q. srv_exit_quit s = Some q \<and> (cls q = OSError \<or> cls q = EOFError)) \<Longrightarrow>
     handled s e = e"
  by (auto simp add: handled_def with_exit_def)

lemma handled_replaced:
  "srv_connect s ''ftp.bom.gov.au'' 30 = None \<Longrightarrow> srv_exit_quit s = Some q \<Longrightarrow>
   cls q \<noteq> OSError \<Longrightarrow> cls q \<noteq> EOFError \<Longrightarrow> handled s e = q"
  by (simp add: handled_def with_exit_def)

subsection \<open>The ways a fetch ends\<close>

text \<open>
  A fetch ends in one of four ways: the constructor raises; a call inside the \<open>with\<close>
  block raises while the connection is open; one of the three prints raises; or the
  function returns.
\<close>

lemma first_failure_None:
  assumes "first_failure s f = None"
  shows "srv_connect s ''ftp.bom.gov.au'' 30 = None" and "srv_login s = None"
    and "srv_cwd s ''/anon/gen/fwo/'' = None"
    and "snd (snd (retrlines s (''RETR '' @ f))) = None" and "srv_quit s = None"
  using assms by (simp_all add: first_failure_def split: option.splits)

lemma print_failure_None:
  assumes "print_failure s f = None"
  shows "stdout_print s ''FTP connection closed.'' = None"
    and "stdout_print s ''Fetched forecast data:'' = None"
    and "stdout_print s (join newline (run_callback [] (fst (snd (retrlines s (''RETR '' @ f)))))) = None"
  using assms by (simp_all add: print_failure_def split: option.splits)

lemma fetch_cases [case_names connect session printing returned]:
  obtains
    (connect) e where "first_failure s f = Some e"
      and "srv_connect s ''ftp.bom.gov.au'' 30 = Some e"
      and "fetch_bom_forecast s f = except [Ev_connect ''ftp.bom.gov.au'' 30] e"
  | (session) e tr where "first_failure s f = Some e"
      and "srv_connect s ''ftp.bom.gov.au'' 30 = None"
      and "fetch_bom_forecast s f = raise_in_with s (Ev_connect ''ftp.bom.gov.au'' 30 # tr) e"
      and "set tr \<subseteq> {Ev_login, Ev_cwd ''/anon/gen/fwo/'', Ev_retrlines (''RETR '' @ f), Ev_quit}"
      and "srv_login s = None \<and> srv_cwd s ''/anon/gen/fwo/'' = None \<longrightarrow>
             Ev_retrlines (''RETR '' @ f) \<in> set tr"
  | (printing) e tr t where "first_failure s f = None" and "print_failure s f = Some e"
      and "fetch_bom_forecast s f =
             except ([Ev_connect ''ftp.bom.gov.au'' 30, Ev_login, Ev_cwd ''/anon/gen/fwo/'',
                      Ev_retrlines (''RETR '' @ f), Ev_quit] @ tr @ [Ev_stdout_failed t]) e"
      and "set tr \<subseteq> {Ev_stdout ''FTP connection closed.'', Ev_stdout ''Fetched forecast data:''}"
  | (returned) "first_failure s f = None" and "print_failure s f = None"
      and "fetch_bom_forecast s f =
             ([Ev_connect ''ftp.bom.gov.au'' 30, Ev_login, Ev_cwd ''/anon/gen/fwo/'',
               Ev_retrlines (''RETR '' @ f), Ev_quit,
               Ev_stdout ''FTP connection closed.'', Ev_stdout ''Fetched forecast data:'',
               Ev_stdout (join newline (take 100 (remote_lines s f)))],
              Returned (join newline (take 100 (remote_lines s f))))"
proof (cases "srv_connect s ''ftp.bom.gov.au'' 30")
  case (Some e)
  then have ff: "first_failure s f = Some e" by (simp add: first_failure_def)
  have run: "fetch_bom_forecast s f = except [Ev_connect ''ftp.bom.gov.au'' 30] e"
    using Some by (simp add: fetch_bom_forecast_def)
  show ?thesis by (rule connect [OF ff Some run])
next
  case c: None
  show ?thesis
  proof (cases "srv_login s")
    case (Some e)
    with c have "first_failure s f = Some e" by (simp add: first_failure_def)
    moreover have "fetch_bom_forecast s f =
        raise_in_with s (Ev_connect ''ftp.bom.gov.au'' 30 # [Ev_login]) e"
      using c Some by (simp add: fetch_bom_forecast_def)
    ultimately show ?thesis using c Some by (intro session [where tr = "[Ev_login]"]) simp_all
  next
    case l: None
    show ?thesis
    proof (cases "srv_cwd s ''/anon/gen/fwo/''")
      case (Some e)
      with c l have "first_failure s f = Some e" by (simp add: first_failure_def)
      moreover have "fetch_bom_forecast s f =
          raise_in_with s (Ev_connect ''ftp.bom.gov.au'' 30 # [Ev_login, Ev_cwd ''/anon/gen/fwo/'']) e"
        using c l Some by (simp add: fetch_bom_forecast_def)
      ultimately show ?thesis using c Some
        by (intro session [where tr = "[Ev_login, Ev_cwd ''/anon/gen/fwo/'']"]) simp_all
    next
      case d: None
      show ?thesis
      proof (cases "snd (snd (retrlines s (''RETR '' @ f)))")
        case (Some e)
        with c l d have "first_failure s f = Some e" by (simp add: first_failure_def)
        moreover have "fetch_bom_forecast s f =
            raise_in_with s (Ev_connect ''ftp.bom.gov.au'' 30 #
              [Ev_login, Ev_cwd ''/anon/gen/fwo/'', Ev_retrlines (''RETR '' @ f)]) e"
          using c l d Some by (simp add: fetch_bom_forecast_def split_beta)
        ultimately show ?thesis using c
          by (intro session [where tr = "[Ev_login, Ev_cwd ''/anon/gen/fwo/'',
                Ev_retrlines (''RETR '' @ f)]"]) simp_all
      next
        case r: None
        then have rec: "fst (snd (retrlines s (''RETR '' @ f))) = remote_lines s f"
          by (rule retrlines_received)
        show ?thesis
        proof (cases "srv_quit s")
          case (Some e)
          with c l d r have "first_failure s f = Some e" by (simp add: first_failure_def)
          moreover have "fetch_bom_forecast s f =
              raise_in_with s (Ev_connect ''ftp.bom.gov.au'' 30 #
                [Ev_login, Ev_cwd ''/anon/gen/fwo/'', Ev_retrlines (''RETR '' @ f), Ev_quit]) e"
            using c l d r Some by (simp add: fetch_bom_forecast_def split_beta)
          ultimately show ?thesis using c
            by (intro session [where tr = "[Ev_login, Ev_cwd ''/anon/gen/fwo/'',
                  Ev_retrlines (''RETR '' @ f), Ev_quit]"]) simp_all
        next
          case q: None
          with c l d r have ff: "first_failure s f = None" by (simp add: first_failure_def)
          show ?thesis
          proof (cases "stdout_print s ''FTP connection closed.''")
            case (Some e)
            then have "print_failure s f = Some e" by (simp add: print_failure_def)
            moreover have "fetch_bom_forecast s f =
                except ([Ev_connect ''ftp.bom.gov.au'' 30, Ev_login, Ev_cwd ''/anon/gen/fwo/'',
                         Ev_retrlines (''RETR '' @ f), Ev_quit] @ [] @
                        [Ev_stdout_failed ''FTP connection closed.'']) e"
              using c l d r q Some
              by (simp add: fetch_bom_forecast_def split_beta print_out_def Let_def)
            ultimately show ?thesis using ff by (intro printing [where tr = "[]"]) simp_all
          next
            case p1: None
            show ?thesis
            proof (cases "stdout_print s ''Fetched forecast data:''")
              case (Some e)
              with p1 have "print_failure s f = Some e" by (simp add: print_failure_def)
              moreover have "fetch_bom_forecast s f =
                  except ([Ev_connect ''ftp.bom.gov.au'' 30, Ev_login, Ev_cwd ''/anon/gen/fwo/'',
                           Ev_retrlines (''RETR '' @ f), Ev_quit] @
                          [Ev_stdout ''FTP connection closed.''] @
                          [Ev_stdout_failed ''Fetched forecast data:'']) e"
                using c l d r q p1 Some
                by (simp add: fetch_bom_forecast_def split_beta print_out_def Let_def)
              ultimately show ?thesis using ff
                by (intro printing [where tr = "[Ev_stdout ''FTP connection closed.'']"]) simp_all
            next
              case p2: None
              show ?thesis
              proof (cases "stdout_print s (join newline (take 100 (remote_lines s f)))")
                case (Some e)
                with p1 p2 rec have "print_failure s f = Some e"
                  by (simp add: print_failure_def run_callback_empty)
                moreover have "fetch_bom_forecast s f =
                    except ([Ev_connect ''ftp.bom.gov.au'' 30, Ev_login, Ev_cwd ''/anon/gen/fwo/'',
                             Ev_retrlines (''RETR '' @ f), Ev_quit] @
                            [Ev_stdout ''FTP connection closed.'',
                             Ev_stdout ''Fetched forecast data:''] @
                            [Ev_stdout_failed (join newline (take 100 (remote_lines s f)))]) e"
                  using c l d r q p1 p2 Some rec
                  by (simp add: fetch_bom_forecast_def split_beta print_out_def run_callback_empty Let_def)
                ultimately show ?thesis using ff
                  by (intro printing [where tr = "[Ev_stdout ''FTP connection closed.'',
                        Ev_stdout ''Fetched forecast data:'']"]) simp_all
              next
                case p3: None
                with p1 p2 rec have "print_failure s f = None"
                  by (simp add: print_failure_def run_callback_empty)
                moreover have "fetch_bom_forecast s f =
                   ([Ev_connect ''ftp.bom.gov.au'' 30, Ev_login, Ev_cwd ''/anon/gen/fwo/'',
                     Ev_retrlines (''RETR '' @ f), Ev_quit,
                     Ev_stdout ''FTP connection closed.'', Ev_stdout ''Fetched forecast data:'',
                     Ev_stdout (join newline (take 100 (remote_lines s f)))],
                    Returned (join newline (take 100 (remote_lines s f))))"
                  using c l d r q p1 p2 p3 rec
                  by (simp add: fetch_bom_forecast_def split_beta print_out_def run_callback_empty Let_def)
                ultimately show ?thesis using ff by (intro returned)
              qed
            qed
          qed
        qed
      qed
    qed
  qed
qed

lemma fetch_success:
  assumes "first_failure s f = None" and "print_failure s f = None"
  shows "fetch_bom_forecast s f =
    ([Ev_connect ''ftp.bom.gov.au'' 30, Ev_login, Ev_cwd ''/anon/gen/fwo/'',
      Ev_retrlines (''RETR '' @ f), Ev_quit,
      Ev_stdout ''FTP connection closed.'', Ev_stdout ''Fetched forecast data:'',
      Ev_stdout (join newline (take 100 (remote_lines s f)))],
     Returned (join newline (take 100 (remote_lines s f))))"
  using assms by (cases s f rule: fetch_cases) simp_all

lemma fetch_failure:
  assumes "first_failure s f = Some e"
  shows "snd (fetch_bom_forecast s f) = Exited 1"
    and "filter (\<lambda>ev. \<not> is_network ev) (fst (fetch_bom_forecast s f)) =
           [Ev_stderr (''FTP connection or operation failed: '' @ str (handled s e))]"
proof -
  have "snd (fetch_bom_forecast s f) = Exited 1 \<and>
      filter (\<lambda>ev. \<not> is_network ev) (fst (fetch_bom_forecast s f)) =
        [Ev_stderr (''FTP connection or operation failed: '' @ str (handled s e))]"
  proof (cases s f rule: fetch_cases)
    case (connect e')
    with assms show ?thesis by (simp add: except_def handled_def)
  next
    case (session e' tr)
    from session(4) have "filter (\<lambda>ev. \<not> is_network ev) tr = []"
      by (auto simp add: filter_empty_conv)
    with session assms show ?thesis by (simp add: except_def raise_in_with_def handled_def)
  next
    case (printing e' tr t)
    with assms show ?thesis by simp
  next
    case returned
    with assms show ?thesis by simp
  qed
  then show "snd (fetch_bom_forecast s f) = Exited 1"
    and "filter (\<lambda>ev. \<not> is_network ev) (fst (fetch_bom_forecast s f)) =
           [Ev_stderr (''FTP connection or operation failed: '' @ str (handled s e))]"
    by simp_all
qed

lemma fetch_print_failure:
  assumes "first_failure s f = None" and "print_failure s f = Some e"
  shows "snd (fetch_bom_forecast s f) = Exited 1"
    and "stderr_of (fst (fetch_bom_forecast s f)) =
           ''FTP connection or operation failed: '' @ str e @ newline"
proof -
  have "snd (fetch_bom_forecast s f) = Exited 1 \<and>
      stderr_of (fst (fetch_bom_forecast s f)) =
           ''FTP connection or operation failed: '' @ str e @ newline"
  proof (cases s f rule: fetch_cases)
    case (printing e' tr t)
    have "stderr_of (filter (\<lambda>ev. \<not> is_network ev) (tr @ [Ev_stdout_failed t])) = []"
      using printing(4) by (induction tr) auto
    then have "stderr_of (tr @ [Ev_stdout_failed t, Ev_stderr x]) = x @ newline" for x
      by (induction tr rule: stderr_of.induct) simp_all
    with printing assms show ?thesis by (simp add: except_def)
  qed (use assms in simp_all)
  then show "snd (fetch_bom_forecast s f) = Exited 1"
    and "stderr_of (fst (fetch_bom_forecast s f)) =
           ''FTP connection or operation failed: '' @ str e @ newline"
    by simp_all
qed

lemma fetch_Returned:
  assumes "snd (fetch_bom_forecast s f) = Returned forecast"
  shows "first_failure s f = None" and "print_failure s f = None"
  using assms
  by (cases s f rule: fetch_cases; simp add: except_def raise_in_with_def)+

lemma fetch_Returned_eq:
  assumes "snd (fetch_bom_forecast s f) = Returned forecast"
  shows "forecast = join newline (take 100 (remote_lines s f))"
    and "fetch_bom_forecast s f =
    ([Ev_connect ''ftp.bom.gov.au'' 30, Ev_login, Ev_cwd ''/anon/gen/fwo/'',
      Ev_retrlines (''RETR '' @ f), Ev_quit,
      Ev_stdout ''FTP connection closed.'', Ev_stdout ''Fetched forecast data:'',
      Ev_stdout forecast], Returned forecast)"
    and "stdout_print s forecast = None"
proof -
  note ok = fetch_Returned [OF assms]
  note run = fetch_success [OF ok]
  show eq: "forecast = join newline (take 100 (remote_lines s f))"
    using assms run by simp
  show "fetch_bom_forecast s f =
    ([Ev_connect ''ftp.bom.gov.au'' 30, Ev_login, Ev_cwd ''/anon/gen/fwo/'',
      Ev_retrlines (''RETR '' @ f), Ev_quit,
      Ev_stdout ''FTP connection closed.'', Ev_stdout ''Fetched forecast data:'',
      Ev_stdout forecast], Returned forecast)"
    using run eq by simp
  show "stdout_print s forecast = None"
    using print_failure_None(3) [OF ok(2)] retrlines_received [OF first_failure_None(4) [OF ok(1)]] eq
    by (simp add: run_callback_empty)
qed







subsection \<open>Output streams and the driver\<close>

lemma stdout_of_filter: "stdout_of (filter (\<lambda>ev. \<not> is_network ev) tr) = stdout_of tr"
  by (induction tr rule: stdout_of.induct) simp_all

lemma stderr_of_filter: "stderr_of (filter (\<lambda>ev. \<not> is_network ev) tr) = stderr_of tr"
  by (induction tr rule: stderr_of.induct) simp_all

lemma main_with_file:
  "main s (p # f # rest) =
     (case fetch_bom_forecast s f of
        (tr, Exited n) \<Rightarrow> (tr, n)
      | (tr, Returned forecast) \<Rightarrow>
          (case print_out s tr forecast of
             (tr, None) \<Rightarrow> (tr, 0)
           | (tr, Some e) \<Rightarrow> (tr @ [Ev_traceback e], 1)))"
  by (auto simp add: main_def split: prod.splits result.splits option.splits)

lemma main_after_return:
  assumes "snd (fetch_bom_forecast s f) = Returned forecast"
  shows "main s (p # f # rest) = (fst (fetch_bom_forecast s f) @ [Ev_stdout forecast], 0)"
  using fetch_Returned_eq(2,3) [OF assms]
  by (simp add: main_with_file print_out_def)

lemma main_after_exit:
  assumes "snd (fetch_bom_forecast s f) = Exited n"
  shows "main s (p # f # rest) = (fst (fetch_bom_forecast s f), n)"
  using assms by (cases "fetch_bom_forecast s f") (simp add: main_with_file)

text \<open>
  A forecast with a degree sign on a terminal that cannot encode it: the session goes
  through, the third print raises inside the \<open>try\<close>, and the run ends with the failure
  report and status 1 after the two fixed lines have been written.
\<close>

lemma print_failure_example:
  "main (ascii_terminal [''Max 31'' @ [CHR 0xB0] @ ''C'']) [''python-ftp.py'', ''IDN10064.txt''] =
     ([Ev_connect ''ftp.bom.gov.au'' 30, Ev_login, Ev_cwd ''/anon/gen/fwo/'',
       Ev_retrlines ''RETR IDN10064.txt'', Ev_quit,
       Ev_stdout ''FTP connection closed.'', Ev_stdout ''Fetched forecast data:'',
       Ev_stdout_failed (''Max 31'' @ [CHR 0xB0] @ ''C''),
       Ev_stderr ''FTP connection or operation failed: ascii codec cannot encode character''],
      1)"
  by (simp add: main_def fetch_bom_forecast_def ascii_terminal_def uniform_server_def
      retrlines_def putline_def print_out_def run_callback_def handle_line_def except_def)

section \<open>Specified behaviour\<close>

text \<open>
  C1. When the fetch succeeds it returns the first \<open>min n 100\<close> lines of the remote file,
  \<open>n\<close> the number of its lines, joined with newlines, and nothing else: every kept line
  but the last is followed by one line feed, the last kept line ends the text, and
  nothing comes after it. A file of 100 lines or more gives its lines 0 to 99 and no
  later line, a shorter file gives all its lines, an empty file gives the empty string.
  When no kept line holds a line feed itself, the text holds one line feed less than
  there are kept lines.
\<close>

theorem fetch_returns_first_100_lines:
  "snd (fetch_bom_forecast s f) = Returned forecast \<Longrightarrow>
     (remote_lines s f = [] \<longrightarrow> forecast = []) \<and>
     (remote_lines s f \<noteq> [] \<longrightarrow>
        forecast =
          concat (map (\<lambda>l. l @ [CHR 0x0A])
            (butlast (take (min (length (remote_lines s f)) 100) (remote_lines s f)))) @
          last (take (min (length (remote_lines s f)) 100) (remote_lines s f))) \<and>
     (100 \<le> length (remote_lines s f) \<longrightarrow>
        forecast =
          concat (map (\<lambda>l. l @ [CHR 0x0A]) (take 99 (remote_lines s f))) @
          remote_lines s f ! 99) \<and>
     (length (remote_lines s f) < 100 \<and> remote_lines s f \<noteq> [] \<longrightarrow>
        forecast =
          concat (map (\<lambda>l. l @ [CHR 0x0A]) (butlast (remote_lines s f))) @
          last (remote_lines s f)) \<and>
     ((\<forall>l \<in> set (take 100 (remote_lines s f)). CHR 0x0A \<notin> set l) \<longrightarrow>
        count_lines forecast = min (length (remote_lines s f)) 100 - 1)"
proof -
  assume ret: "snd (fetch_bom_forecast s f) = Returned forecast"
  define ls where "ls = remote_lines s f"
  define kept where "kept = take 100 ls"
  have eq: "forecast = join newline kept"
    using fetch_Returned_eq(1) [OF ret] by (simp add: kept_def ls_def)
  have min_eq: "take (min (length (remote_lines s f)) 100) (remote_lines s f) =
      take 100 (remote_lines s f)"
    by (simp add: min_def)
  have empty: "ls = [] \<longrightarrow> forecast = []"
    using eq by (simp add: kept_def)
  have shape: "forecast = concat (map (\<lambda>l. l @ [CHR 0x0A]) (butlast kept)) @ last kept"
    if "ls \<noteq> []"
  proof -
    from that have "kept \<noteq> []" by (cases ls) (simp_all add: kept_def)
    then show ?thesis using eq join_concat [of kept newline] by (simp add: newline_def)
  qed
  have long: "forecast = concat (map (\<lambda>l. l @ [CHR 0x0A]) (take 99 ls)) @ ls ! 99"
    if "100 \<le> length ls"
  proof -
    from that have "ls \<noteq> []" by auto
    moreover from that have "butlast kept = take 99 ls"
      by (simp add: kept_def butlast_take)
    moreover have "last kept = ls ! 99"
    proof -
      from that have "kept \<noteq> []" and "length kept = 100" by (auto simp add: kept_def)
      then have "last kept = kept ! 99" by (simp add: last_conv_nth)
      then show ?thesis by (simp add: kept_def)
    qed
    ultimately show ?thesis using shape by simp
  qed
  have short: "forecast = concat (map (\<lambda>l. l @ [CHR 0x0A]) (butlast ls)) @ last ls"
    if "length ls < 100" and "ls \<noteq> []"
  proof -
    from that(1) have "kept = ls" by (simp add: kept_def)
    with shape [OF that(2)] show ?thesis by simp
  qed
  have count: "count_lines forecast = min (length ls) 100 - 1"
    if "\<forall>l \<in> set kept. CHR 0x0A \<notin> set l"
  proof (cases "kept = []")
    case True
    then have "ls = []" by (cases ls) (simp_all add: kept_def)
    with True eq show ?thesis by (simp add: count_lines_def)
  next
    case False
    from count_lines_join [OF False that] eq
    have "Suc (count_lines forecast) = length kept" by simp
    then show ?thesis by (simp add: kept_def)
  qed
  from empty shape long short count show ?thesis
    unfolding kept_def ls_def min_eq by blast
qed

theorem fetch_returns_first_100_lines_witness:
  "snd (fetch_bom_forecast (bom_server ''IDN10064.txt'' (replicate 100 ''a'' @ [''late'', ''later'']))
      ''IDN10064.txt'') = Returned (concat (replicate 99 [CHR ''a'', CHR 0x0A]) @ ''a'') \<and>
   snd (fetch_bom_forecast (bom_server ''IDN10064.txt'' [''ab'', [], ''c'']) ''IDN10064.txt'')
     = Returned [CHR ''a'', CHR ''b'', CHR 0x0A, CHR 0x0A, CHR ''c'']"
proof -
  let ?long = "bom_server ''IDN10064.txt'' (replicate 100 ''a'' @ [''late'', ''later''])"
  let ?short = "bom_server ''IDN10064.txt'' [''ab'', [], ''c'']"
  have lines_long: "remote_lines ?long ''IDN10064.txt'' = replicate 100 ''a'' @ [''late'', ''later'']"
    by (simp add: remote_lines_def bom_server_def)
  have lines_short: "remote_lines ?short ''IDN10064.txt'' = [''ab'', [], ''c'']"
    by (simp add: remote_lines_def bom_server_def)
  have "first_failure ?long ''IDN10064.txt'' = None"
    and "print_failure ?long ''IDN10064.txt'' = None"
    by (simp_all add: first_failure_def print_failure_def bom_server_def retrlines_def putline_def)
  then obtain t1 where ret1: "snd (fetch_bom_forecast ?long ''IDN10064.txt'') = Returned t1"
    by (simp add: fetch_success)
  have "first_failure ?short ''IDN10064.txt'' = None"
    and "print_failure ?short ''IDN10064.txt'' = None"
    by (simp_all add: first_failure_def print_failure_def bom_server_def retrlines_def putline_def)
  then obtain t2 where ret2: "snd (fetch_bom_forecast ?short ''IDN10064.txt'') = Returned t2"
    by (simp add: fetch_success)
  from fetch_returns_first_100_lines [OF ret1]
  have "100 \<le> length (remote_lines ?long ''IDN10064.txt'') \<longrightarrow>
      t1 = concat (map (\<lambda>l. l @ [CHR 0x0A]) (take 99 (remote_lines ?long ''IDN10064.txt''))) @
        remote_lines ?long ''IDN10064.txt'' ! 99"
    by blast
  then have long: "t1 = concat (replicate 99 [CHR ''a'', CHR 0x0A]) @ ''a''"
    by (simp add: lines_long nth_append map_replicate_const)
  from fetch_returns_first_100_lines [OF ret2]
  have "length (remote_lines ?short ''IDN10064.txt'') < 100 \<and>
      remote_lines ?short ''IDN10064.txt'' \<noteq> [] \<longrightarrow>
      t2 = concat (map (\<lambda>l. l @ [CHR 0x0A]) (butlast (remote_lines ?short ''IDN10064.txt''))) @
        last (remote_lines ?short ''IDN10064.txt'')"
    by blast
  then have short: "t2 = [CHR ''a'', CHR ''b'', CHR 0x0A, CHR 0x0A, CHR ''c'']"
    by (simp add: lines_short)
  from long short ret1 ret2 show ?thesis by simp
qed

text \<open>
  C2. Whatever call of the session raises first (the connection, the authentication,
  the directory change, the transfer, also when it breaks off after some lines, or the
  end of the session), the function catches what reaches its one handler, makes one
  print \<open>FTP connection or operation failed: <details>\<close> on standard error, prints
  nothing on standard output, and ends the process with status 1; it returns no value,
  and the driver prints nothing after it. \<open><details>\<close> is the text of the exception that
  reaches the handler: that of the failing call, unless the \<open>QUIT\<close> sent on leaving the
  \<open>with\<close> block raises something other than \<open>OSError\<close> or \<open>EOFError\<close>, which then takes
  its place. The report is a single line whenever the details hold no line feed.
\<close>

theorem failure_reports_and_exits:
  "first_failure s f = Some e \<Longrightarrow>
     snd (fetch_bom_forecast s f) = Exited 1 \<and>
     (\<forall>forecast. snd (fetch_bom_forecast s f) \<noteq> Returned forecast) \<and>
     filter (\<lambda>ev. \<not> is_network ev) (fst (fetch_bom_forecast s f)) =
       [Ev_stderr (''FTP connection or operation failed: '' @ str (handled s e))] \<and>
     stderr_of (fst (fetch_bom_forecast s f)) =
       ''FTP connection or operation failed: '' @ str (handled s e) @ [CHR 0x0A] \<and>
     (CHR 0x0A \<notin> set (str (handled s e)) \<longrightarrow>
        count_lines (stderr_of (fst (fetch_bom_forecast s f))) = 1) \<and>
     (srv_connect s ''ftp.bom.gov.au'' 30 \<noteq> None \<or> srv_exit_quit s = None \<or>
      (\<exists>q. srv_exit_quit s = Some q \<and> (cls q = OSError \<or> cls q = EOFError)) \<longrightarrow>
        handled s e = e) \<and>
     (\<forall>q. srv_connect s ''ftp.bom.gov.au'' 30 = None \<and> srv_exit_quit s = Some q \<and>
          cls q \<noteq> OSError \<and> cls q \<noteq> EOFError \<longrightarrow> handled s e = q) \<and>
     stdout_of (fst (fetch_bom_forecast s f)) = [] \<and>
     main s (p # f # rest) = (fst (fetch_bom_forecast s f), 1)"
proof -
  assume fail: "first_failure s f = Some e"
  let ?tr = "fst (fetch_bom_forecast s f)"
  let ?msg = "''FTP connection or operation failed: '' @ str (handled s e)"
  have exit: "snd (fetch_bom_forecast s f) = Exited 1"
    using fail by (rule fetch_failure(1))
  have written: "filter (\<lambda>ev. \<not> is_network ev) ?tr = [Ev_stderr ?msg]"
    using fail by (rule fetch_failure(2))
  have "stderr_of ?tr = stderr_of [Ev_stderr ?msg]"
    using written stderr_of_filter [of ?tr] by simp
  then have err: "stderr_of ?tr = ?msg @ [CHR 0x0A]" by (simp add: newline_def)
  have one: "count_lines (stderr_of ?tr) = 1" if "CHR 0x0A \<notin> set (str (handled s e))"
    using that count_lines_free [of "str (handled s e)"] unfolding err
    by (simp add: count_lines_append) (simp add: count_lines_def)
  have "stdout_of ?tr = stdout_of [Ev_stderr ?msg]"
    using written stdout_of_filter [of ?tr] by simp
  then have out: "stdout_of ?tr = []" by simp
  have run: "main s (p # f # rest) = (?tr, 1)"
    using exit by (rule main_after_exit)
  have same: "srv_connect s ''ftp.bom.gov.au'' 30 \<noteq> None \<or> srv_exit_quit s = None \<or>
      (\<exists>q. srv_exit_quit s = Some q \<and> (cls q = OSError \<or> cls q = EOFError)) \<longrightarrow>
        handled s e = e"
    using handled_unchanged [of s e] by blast
  have other: "\<forall>q. srv_connect s ''ftp.bom.gov.au'' 30 = None \<and> srv_exit_quit s = Some q \<and>
          cls q \<noteq> OSError \<and> cls q \<noteq> EOFError \<longrightarrow> handled s e = q"
    using handled_replaced [of s _ e] by blast
  from exit written err one out run same other show ?thesis by simp
qed

theorem failure_reports_and_exits_witness:
  "first_failure closing_server ''IDN10064.txt'' =
     Some (Exception Error_perm ''550 Failed to open file.'') \<and>
   fetch_bom_forecast closing_server ''IDN10064.txt'' =
     ([Ev_connect ''ftp.bom.gov.au'' 30, Ev_login, Ev_cwd ''/anon/gen/fwo/'',
       Ev_retrlines ''RETR IDN10064.txt'', Ev_exit_quit,
       Ev_stderr ''FTP connection or operation failed: 421 Service not available.''],
      Exited 1) \<and>
   stderr_of (fst (fetch_bom_forecast closing_server ''IDN10064.txt'')) =
     ''FTP connection or operation failed: 421 Service not available.'' @ [CHR 0x0A] \<and>
   count_lines (stderr_of (fst (fetch_bom_forecast closing_server ''IDN10064.txt''))) = 1 \<and>
   main closing_server [''python-ftp.py'', ''IDN10064.txt''] =
     (fst (fetch_bom_forecast closing_server ''IDN10064.txt''), 1)"
proof -
  have fail: "first_failure closing_server ''IDN10064.txt'' =
      Some (Exception Error_perm ''550 Failed to open file.'')"
    by (simp add: first_failure_def closing_server_def retrlines_def putline_def)
  have h: "handled closing_server (Exception Error_perm ''550 Failed to open file.'') =
      Exception Error_temp ''421 Service not available.''"
    by (simp add: handled_def with_exit_def closing_server_def)
  have run: "fetch_bom_forecast closing_server ''IDN10064.txt'' =
     ([Ev_connect ''ftp.bom.gov.au'' 30, Ev_login, Ev_cwd ''/anon/gen/fwo/'',
       Ev_retrlines ''RETR IDN10064.txt'', Ev_exit_quit,
       Ev_stderr ''FTP connection or operation failed: 421 Service not available.''],
      Exited 1)"
    by (simp add: fetch_bom_forecast_def closing_server_def retrlines_def putline_def
        raise_in_with_def with_exit_def except_def)
  from failure_reports_and_exits [OF fail, of "''python-ftp.py''" "[]"] fail run
  show ?thesis by (simp add: h)
qed

text \<open>
  The report is not a single line in every case: the library joins the lines of a
  multi-line reply with line feeds, and the text of the exception carries them onto
  standard error. Here the directory change is refused with a reply of two lines.
\<close>

theorem failure_report_two_lines:
  "first_failure verbose_server ''IDN10064.txt'' =
     Some (Exception Error_perm
       (''550-No such directory.'' @ [CHR 0x0A] @ ''550 Ask the operator.'')) \<and>
   stderr_of (fst (fetch_bom_forecast verbose_server ''IDN10064.txt'')) =
     ''FTP connection or operation failed: 550-No such directory.'' @ [CHR 0x0A] @
     ''550 Ask the operator.'' @ [CHR 0x0A] \<and>
   count_lines (stderr_of (fst (fetch_bom_forecast verbose_server ''IDN10064.txt''))) = 2"
  by (simp add: first_failure_def fetch_bom_forecast_def verbose_server_def raise_in_with_def
      with_exit_def except_def newline_def count_lines_def)

text \<open>
  C3. The line buffer never holds more than 100 entries. A callback invocation on a
  buffer of at most 100 entries leaves at most 100 entries: it appends the line when
  the buffer holds fewer than 100, and drops it, raising nothing, when the buffer holds
  100. So the bound holds after the whole transfer and after each of its lines, that is
  after the first \<open>k\<close> lines received, for every \<open>k\<close>.
\<close>

theorem line_buffer_capped:
  "length lines \<le> 100 \<Longrightarrow>
     length (handle_line lines line) \<le> 100 \<and>
     (length lines < 100 \<longrightarrow> handle_line lines line = lines @ [line]) \<and>
     (length lines = 100 \<longrightarrow> handle_line lines line = lines) \<and>
     length (run_callback lines received) \<le> 100 \<and>
     (\<forall>k. length (run_callback [] (take k received)) \<le> 100)"
proof -
  assume cap: "length lines \<le> 100"
  have "length (run_callback [] xs) \<le> 100" for xs
    by (simp add: run_callback_empty)
  then have always: "\<forall>k. length (run_callback [] (take k received)) \<le> 100"
    by blast
  have "length (run_callback lines received) \<le> 100"
    using cap by (simp add: run_callback_take)
  with always cap show ?thesis by (simp add: handle_line_def)
qed

theorem line_buffer_capped_witness:
  "length (replicate 99 ''x'') \<le> 100 \<and>
   handle_line (replicate 99 ''x'') ''y'' = replicate 99 ''x'' @ [''y''] \<and>
   length (handle_line (replicate 99 ''x'') ''y'') \<le> 100 \<and>
   length (run_callback (replicate 99 ''x'') [''y'', ''z'', ''w'']) \<le> 100"
  using line_buffer_capped [of "replicate 99 ''x''" "''y''" "[''y'', ''z'', ''w'']"]
  by simp

text \<open>
  C4. Without a command-line argument (\<open>sys.argv\<close> holds the script name at most)
  the program prints the usage line on standard error and exits with status 1. The run
  makes no call to the FTP library: the fetch is never entered.
\<close>

theorem no_argument_usage_error:
  "length argv < 2 \<Longrightarrow>
     main s argv = ([Ev_stderr ''Usage: python python-ftp.py <ftp_file>''], 1) \<and>
     stderr_of (fst (main s argv)) = ''Usage: python python-ftp.py <ftp_file>'' @ newline \<and>
     stdout_of (fst (main s argv)) = [] \<and>
     filter is_network (fst (main s argv)) = []"
  by (simp add: main_def)

theorem no_argument_usage_error_witness:
  "length [''python-ftp.py''] < 2 \<and>
   main (bom_server ''IDN10064.txt'' [''a'']) [''python-ftp.py''] =
     ([Ev_stderr ''Usage: python python-ftp.py <ftp_file>''], 1) \<and>
   filter is_network (fst (main (bom_server ''IDN10064.txt'' [''a'']) [''python-ftp.py''])) = []"
  using no_argument_usage_error [of "[''python-ftp.py'']" "bom_server ''IDN10064.txt'' [''a'']"]
  by simp

text \<open>
  C5. On a successful run the fetch prints the connection-closed notice, the header
  \<open>Fetched forecast data:\<close> and the fetched text, in this order, and the driver then
  prints the value the fetch returned, which is that same text. Nothing is written on
  standard error and the exit status is 0.
\<close>

theorem success_output_sequence:
  "snd (fetch_bom_forecast s f) = Returned forecast \<Longrightarrow>
     filter (\<lambda>ev. \<not> is_network ev) (fst (fetch_bom_forecast s f)) =
       [Ev_stdout ''FTP connection closed.'', Ev_stdout ''Fetched forecast data:'',
        Ev_stdout forecast] \<and>
     fst (main s (p # f # rest)) = fst (fetch_bom_forecast s f) @ [Ev_stdout forecast] \<and>
     stdout_of (fst (main s (p # f # rest))) =
       ''FTP connection closed.'' @ newline @ ''Fetched forecast data:'' @ newline @
       forecast @ newline @ forecast @ newline \<and>
     stderr_of (fst (main s (p # f # rest))) = [] \<and>
     snd (main s (p # f # rest)) = 0"
proof -
  assume ret: "snd (fetch_bom_forecast s f) = Returned forecast"
  note run = fetch_Returned_eq(2) [OF ret]
  show ?thesis
    unfolding main_after_return [OF ret] unfolding run by simp
qed

theorem success_output_sequence_witness:
  "snd (fetch_bom_forecast (bom_server ''IDN10064.txt'' [''IDN10064'', ''Sydney'']) ''IDN10064.txt'')
     = Returned (''IDN10064'' @ newline @ ''Sydney'') \<and>
   main (bom_server ''IDN10064.txt'' [''IDN10064'', ''Sydney'']) [''python-ftp.py'', ''IDN10064.txt'']
     = ([Ev_connect ''ftp.bom.gov.au'' 30, Ev_login, Ev_cwd ''/anon/gen/fwo/'',
         Ev_retrlines ''RETR IDN10064.txt'', Ev_quit,
         Ev_stdout ''FTP connection closed.'', Ev_stdout ''Fetched forecast data:'',
         Ev_stdout (''IDN10064'' @ newline @ ''Sydney''),
         Ev_stdout (''IDN10064'' @ newline @ ''Sydney'')], 0)"
proof -
  let ?s = "bom_server ''IDN10064.txt'' [''IDN10064'', ''Sydney'']"
  have run: "fetch_bom_forecast ?s ''IDN10064.txt'' =
     ([Ev_connect ''ftp.bom.gov.au'' 30, Ev_login, Ev_cwd ''/anon/gen/fwo/'',
       Ev_retrlines ''RETR IDN10064.txt'', Ev_quit,
       Ev_stdout ''FTP connection closed.'', Ev_stdout ''Fetched forecast data:'',
       Ev_stdout (''IDN10064'' @ newline @ ''Sydney'')],
      Returned (''IDN10064'' @ newline @ ''Sydney''))"
    by (simp add: fetch_bom_forecast_def bom_server_def retrlines_def putline_def CRLF_def
        print_out_def run_callback_def handle_line_def)
  then have ret: "snd (fetch_bom_forecast ?s ''IDN10064.txt'') =
      Returned (''IDN10064'' @ newline @ ''Sydney'')"
    by simp
  from success_output_sequence [OF ret, of "''python-ftp.py''" "[]"] run
  have "fst (main ?s [''python-ftp.py'', ''IDN10064.txt'']) =
      fst (fetch_bom_forecast ?s ''IDN10064.txt'') @ [Ev_stdout (''IDN10064'' @ newline @ ''Sydney'')]"
    and "snd (main ?s [''python-ftp.py'', ''IDN10064.txt'']) = 0"
    by simp_all
  with run ret show ?thesis
    by (cases "main ?s [''python-ftp.py'', ''IDN10064.txt'']") simp
qed







text \<open>
  C8. On a successful fetch the calls and prints are, in order: connect, login, change
  of directory, retrieval, then \<open>quit\<close>, and only then the three prints; the value is
  returned after them. The session is ended after the transfer and before any output
  and before the return, and the \<open>quit\<close> call has returned normally.
\<close>

theorem quit_precedes_output_and_return:
  "snd (fetch_bom_forecast s f) = Returned forecast \<Longrightarrow>
     fst (fetch_bom_forecast s f) =
       [Ev_connect ''ftp.bom.gov.au'' 30, Ev_login, Ev_cwd ''/anon/gen/fwo/'',
        Ev_retrlines (''RETR '' @ f)] @
       [Ev_quit] @
       [Ev_stdout ''FTP connection closed.'', Ev_stdout ''Fetched forecast data:'',
        Ev_stdout forecast] \<and>
     srv_quit s = None"
proof -
  assume ret: "snd (fetch_bom_forecast s f) = Returned forecast"
  have "srv_quit s = None"
    using first_failure_None(5) [OF fetch_Returned(1) [OF ret]] .
  with fetch_Returned_eq(2) [OF ret] show ?thesis by simp
qed

theorem quit_precedes_output_and_return_witness:
  "fetch_bom_forecast (bom_server ''IDN10064.txt'' [''a'', ''b'']) ''IDN10064.txt'' =
     ([Ev_connect ''ftp.bom.gov.au'' 30, Ev_login, Ev_cwd ''/anon/gen/fwo/'',
       Ev_retrlines ''RETR IDN10064.txt'', Ev_quit,
       Ev_stdout ''FTP connection closed.'', Ev_stdout ''Fetched forecast data:'',
       Ev_stdout (''a'' @ newline @ ''b'')],
      Returned (''a'' @ newline @ ''b''))"
proof -
  let ?s = "bom_server ''IDN10064.txt'' [''a'', ''b'']"
  have ret: "snd (fetch_bom_forecast ?s ''IDN10064.txt'') = Returned (''a'' @ newline @ ''b'')"
    by (simp add: fetch_bom_forecast_def bom_server_def retrlines_def putline_def CRLF_def
        print_out_def run_callback_def handle_line_def)
  from quit_precedes_output_and_return [OF ret] ret show ?thesis
    by (cases "fetch_bom_forecast ?s ''IDN10064.txt''") simp
qed



text \<open>
  C10. On a buffer of 100 entries or more the callback changes nothing and raises
  nothing: the buffer comes back as it was, and so it does after any number of further
  lines of the transfer.
\<close>

theorem handle_line_noop_at_cap:
  "100 \<le> length lines \<Longrightarrow>
     handle_line lines line = lines \<and> run_callback lines received = lines"
  by (simp add: handle_line_def run_callback_full)

theorem handle_line_noop_at_cap_witness:
  "100 \<le> length (replicate 100 ''x'') \<and>
   handle_line (replicate 100 ''x'') ''y'' = replicate 100 ''x'' \<and>
   run_callback (replicate 100 ''x'') [''y'', ''z''] = replicate 100 ''x''"
  using handle_line_noop_at_cap [of "replicate 100 ''x''" "''y''" "[''y'', ''z'']"]
  by simp

end
